theory Spec2Isabelle
  imports Main "HOL-Library.Sublist" "HOL-Library.Word"
begin

section \<open>The photo restoration session of \<^verbatim>\<open>src/App.tsx\<close>\<close>

text \<open>
  The component \<^verbatim>\<open>App\<close> keeps five state variables and three handlers
  (\<^verbatim>\<open>handleFileChange\<close>, \<^verbatim>\<open>handleRestore\<close>, \<^verbatim>\<open>resetState\<close>). Each handler is
  embedded as a function from the component state, as of the render the handler belongs
  to, to the state committed when the handler's synchronous run ends (React commits the
  setter calls of one run together), paired with the calls the run makes to the browser
  and to the restoration service, in order.
\<close>

subsection \<open>Data\<close>

text \<open>A browser \<^verbatim>\<open>File\<close>: its name, its declared MIME type and its bytes.\<close>

record File =
  fname :: string
  ftype :: string
  fbytes :: "8 word list"

text \<open>The five \<^verbatim>\<open>useState\<close> variables of \<^verbatim>\<open>App\<close>; \<^verbatim>\<open>null\<close> is \<open>None\<close>.\<close>

record app_state =
  originalImage :: "File option"
  originalImageUrl :: "string option"
  restoredImageUrl :: "string option"
  isLoading :: bool
  error :: "string option"

text \<open>What a handler does outside the component state.\<close>

datatype effect =
    CreateObjectURL File string  \<comment> \<open>\<^verbatim>\<open>URL.createObjectURL(file)\<close> and the URL it returned\<close>
  | RevokeObjectURL string       \<comment> \<open>\<^verbatim>\<open>URL.revokeObjectURL(url)\<close>\<close>
  | ClearFileInput               \<comment> \<open>\<^verbatim>\<open>fileInputRef.current.value = ""\<close>\<close>
  | RestorePhotoCall File        \<comment> \<open>\<^verbatim>\<open>restorePhoto(originalImage)\<close>, the one network exchange\<close>
  | ConsoleError string          \<comment> \<open>\<^verbatim>\<open>console.error(err)\<close>\<close>

text \<open>How the promise of \<^verbatim>\<open>restorePhoto\<close> settles: with a base64 string, or rejected.\<close>

datatype outcome = Resolved string | Rejected string

text \<open>The five statuses of the session.\<close>

datatype status = Idle | Ready | Restoring | Succeeded | Failed

subsection \<open>Constants of the source\<close>

definition initial_state :: app_state where
  "initial_state =
     \<lparr>originalImage = None, originalImageUrl = None, restoredImageUrl = None,
      isLoading = False, error = None\<rparr>"

definition upload_error_message :: string where
  "upload_error_message = ''Please upload a valid image file (PNG, JPG, etc.).''"

definition restore_failed_message :: string where
  "restore_failed_message = ''Failed to restore photo. Please try again later.''"

definition download_name :: string where
  "download_name = ''restored-photo.png''"

subsection \<open>JavaScript truthiness and string tests\<close>

text \<open>
  \<^verbatim>\<open>if (url)\<close>, \<^verbatim>\<open>url && ...\<close> and \<^verbatim>\<open>url ? ... : ...\<close> on a \<^verbatim>\<open>string | null\<close>: \<^verbatim>\<open>null\<close> and
  the empty string are falsy.
\<close>

fun truthy :: "string option \<Rightarrow> bool" where
  "truthy None = False"
| "truthy (Some u) = (u \<noteq> [])"

text \<open>\<^verbatim>\<open>file.type.startsWith('image/')\<close>.\<close>

definition isImageType :: "File \<Rightarrow> bool" where
  "isImageType f = prefix ''image/'' (ftype f)"

text \<open>The template literal \<^verbatim>\<open>`data:${originalImage.type};base64,${restoredBase64}`\<close>.\<close>

definition dataUrl :: "File \<Rightarrow> string \<Rightarrow> string" where
  "dataUrl f b64 = ''data:'' @ ftype f @ '';base64,'' @ b64"

subsection \<open>What the render shows\<close>

text \<open>
  The file input is a child of the first \<^verbatim>\<open>PhotoFrame\<close>, which renders its children only
  when its \<^verbatim>\<open>imageUrl\<close> (here \<^verbatim>\<open>originalImageUrl\<close>) is falsy; \<^verbatim>\<open>fileInputRef.current\<close> is
  the input element while it is rendered and \<^verbatim>\<open>null\<close> otherwise.
\<close>

definition fileInputMounted :: "app_state \<Rightarrow> bool" where
  "fileInputMounted s = (\<not> truthy (originalImageUrl s))"

text \<open>The restore button: \<^verbatim>\<open>disabled={!originalImage || isLoading}\<close>.\<close>

definition restoreButtonEnabled :: "app_state \<Rightarrow> bool" where
  "restoreButtonEnabled s = (\<not> (originalImage s = None \<or> isLoading s))"

text \<open>
  The button "Start Over": rendered when \<^verbatim>\<open>originalImage || restoredImageUrl\<close>, with
  \<^verbatim>\<open>disabled={isLoading}\<close>.
\<close>

definition resetButtonEnabled :: "app_state \<Rightarrow> bool" where
  "resetButtonEnabled s =
     ((originalImage s \<noteq> None \<or> truthy (restoredImageUrl s)) \<and> \<not> isLoading s)"

text \<open>
  The download link: rendered when \<^verbatim>\<open>restoredImageUrl\<close> is truthy, as the pair of its
  \<^verbatim>\<open>href\<close> and its \<^verbatim>\<open>download\<close> attribute (the default file name of the save).
\<close>

definition downloadLink :: "app_state \<Rightarrow> (string \<times> string) option" where
  "downloadLink s =
     (case restoredImageUrl s of
        None \<Rightarrow> None
      | Some u \<Rightarrow> if u \<noteq> [] then Some (u, download_name) else None)"

subsection \<open>The handlers\<close>

text \<open>
  \<^verbatim>\<open>resetState\<close>: the five setters are called with \<^verbatim>\<open>null\<close> or \<^verbatim>\<open>false\<close>; the preview URL
  is revoked when it is truthy, and the file input is emptied when it is mounted.
\<close>

definition resetState :: "app_state \<Rightarrow> app_state \<times> effect list" where
  "resetState s =
     (s\<lparr>originalImage := None, originalImageUrl := None, restoredImageUrl := None,
        isLoading := False, error := None\<rparr>,
      (case originalImageUrl s of
         None \<Rightarrow> []
       | Some u \<Rightarrow> if u \<noteq> [] then [RevokeObjectURL u] else []) @
      (if fileInputMounted s then [ClearFileInput] else []))"

text \<open>
  \<^verbatim>\<open>handleFileChange\<close>: the first argument is \<^verbatim>\<open>event.target.files?.[0]\<close>, the second the
  URL that \<^verbatim>\<open>URL.createObjectURL\<close> returns if it is called (the browser chooses it).
\<close>

definition handleFileChange ::
  "File option \<Rightarrow> string \<Rightarrow> app_state \<Rightarrow> app_state \<times> effect list" where
  "handleFileChange fo url s =
     (case fo of
        None \<Rightarrow> (s, [])
      | Some f \<Rightarrow>
          if \<not> isImageType f then (s\<lparr>error := Some upload_error_message\<rparr>, [])
          else
            (let (s', evs) = resetState s
             in (s'\<lparr>originalImage := Some f, originalImageUrl := Some url\<rparr>,
                 evs @ [CreateObjectURL f url])))"

text \<open>
  \<^verbatim>\<open>handleRestore\<close> is asynchronous. Its run up to the \<^verbatim>\<open>await\<close> is
  \<open>handleRestore_begin\<close>; the third component is the file of the request now in flight
  (the \<^verbatim>\<open>originalImage\<close> the callback closed over), \<open>None\<close> when the handler returned at
  once. Its run after the promise has settled is \<open>handleRestore_settle\<close>, on the state
  current at that moment.
\<close>

definition handleRestore_begin ::
  "app_state \<Rightarrow> app_state \<times> effect list \<times> File option" where
  "handleRestore_begin s =
     (case originalImage s of
        None \<Rightarrow> (s, [], None)
      | Some f \<Rightarrow>
          (s\<lparr>isLoading := True, error := None, restoredImageUrl := None\<rparr>,
           [RestorePhotoCall f], Some f))"

definition handleRestore_settle ::
  "File \<Rightarrow> outcome \<Rightarrow> app_state \<Rightarrow> app_state \<times> effect list" where
  "handleRestore_settle f oc s =
     (case oc of
        Resolved b64 \<Rightarrow>
          (s\<lparr>restoredImageUrl := Some (dataUrl f b64), isLoading := False\<rparr>, [])
      | Rejected err \<Rightarrow>
          (s\<lparr>error := Some restore_failed_message, isLoading := False\<rparr>,
           [ConsoleError err]))"

text \<open>
  One whole run of \<^verbatim>\<open>handleRestore\<close> whose promise settles with \<open>oc\<close>, nothing else
  happening in between: the states the component goes through, the state before the call
  first, and the effects of the run.
\<close>

definition handleRestore :: "outcome \<Rightarrow> app_state \<Rightarrow> app_state list \<times> effect list" where
  "handleRestore oc s =
     (case handleRestore_begin s of
        (s1, e1, None) \<Rightarrow> ([s], e1)
      | (s1, e1, Some f) \<Rightarrow>
          (let (s2, e2) = handleRestore_settle f oc s1 in ([s, s1, s2], e1 @ e2)))"

subsection \<open>Reading the status off the component state\<close>

text \<open>
  The component has no status variable; the status of the session is read off its state.
  While \<^verbatim>\<open>isLoading\<close> the page shows "Restoring...": \<open>Restoring\<close>. Without an original
  file it shows the upload prompt: \<open>Idle\<close>. With a restored image it shows that image
  and the download link: \<open>Succeeded\<close>. Otherwise a file is waiting to be restored, and
  the only trace of a failed attempt is the failure message in the banner: \<open>Failed\<close>
  with it, \<open>Ready\<close> without. The validation message in the banner makes no session
  failed: no restoration has been attempted for it.
\<close>

definition status_of :: "app_state \<Rightarrow> status" where
  "status_of s =
     (if isLoading s then Restoring
      else if originalImage s = None then Idle
      else if truthy (restoredImageUrl s) then Succeeded
      else if error s = Some restore_failed_message then Failed
      else Ready)"

text \<open>The URLs a list of effects revokes, and the calls it makes to the service.\<close>

fun revoked :: "effect list \<Rightarrow> string list" where
  "revoked [] = []"
| "revoked (RevokeObjectURL u # es) = u # revoked es"
| "revoked (_ # es) = revoked es"

fun serviceCalls :: "effect list \<Rightarrow> File list" where
  "serviceCalls [] = []"
| "serviceCalls (RestorePhotoCall f # es) = f # serviceCalls es"
| "serviceCalls (_ # es) = serviceCalls es"

subsection \<open>The object URLs alive in the browser\<close>

text \<open>
  \<^verbatim>\<open>URL.createObjectURL\<close> registers the URL it returns; \<^verbatim>\<open>URL.revokeObjectURL\<close> removes
  a URL from the registry and does nothing for a URL that is not there. \<open>live_history\<close>
  lists the registry before the first effect and after each one.
\<close>

fun live_after :: "string list \<Rightarrow> effect \<Rightarrow> string list" where
  "live_after L (CreateObjectURL f u) = L @ [u]"
| "live_after L (RevokeObjectURL u) = removeAll u L"
| "live_after L _ = L"

fun live_history :: "string list \<Rightarrow> effect list \<Rightarrow> string list list" where
  "live_history L [] = [L]"
| "live_history L (e # es) = L # live_history (live_after L e) es"

text \<open>
  The session owns the registry \<open>L\<close>: it holds the preview URL of the state and nothing
  else. (A URL returned by \<^verbatim>\<open>URL.createObjectURL\<close> is never empty.)
\<close>

definition preview_owned :: "app_state \<Rightarrow> string list \<Rightarrow> bool" where
  "preview_owned s L =
     (L = (case originalImageUrl s of None \<Rightarrow> [] | Some u \<Rightarrow> [u])
      \<and> originalImageUrl s \<noteq> Some [])"

subsection \<open>The component as the user drives it\<close>

text \<open>
  A session is the component state together with the files of the requests in flight.
  The user can choose a file while the file input is mounted, click the restore button
  while it is enabled, and click "Start Over" while it is rendered and enabled; a request
  in flight can settle. \<open>step\<close> is \<open>None\<close> where the page offers no such action (and
  for an empty URL, which no browser hands out).
\<close>

record session =
  sess :: app_state
  inflight :: "File list"

datatype action =
    ChooseFile "File option" string  \<comment> \<open>the change event, and the URL the browser would hand out\<close>
  | ClickRestore
  | Settle outcome
  | ClickStartOver

definition initial_session :: session where
  "initial_session = \<lparr>sess = initial_state, inflight = []\<rparr>"

definition step :: "action \<Rightarrow> session \<Rightarrow> session option" where
  "step a c =
     (case a of
        ChooseFile fo u \<Rightarrow>
          if fileInputMounted (sess c) \<and> u \<noteq> []
          then Some (c\<lparr>sess := fst (handleFileChange fo u (sess c))\<rparr>)
          else None
      | ClickRestore \<Rightarrow>
          if restoreButtonEnabled (sess c)
          then (case handleRestore_begin (sess c) of
                  (s', evs, None) \<Rightarrow> Some (c\<lparr>sess := s'\<rparr>)
                | (s', evs, Some f) \<Rightarrow> Some \<lparr>sess = s', inflight = inflight c @ [f]\<rparr>)
          else None
      | Settle oc \<Rightarrow>
          (case inflight c of
             [] \<Rightarrow> None
           | f # fs \<Rightarrow> Some \<lparr>sess = fst (handleRestore_settle f oc (sess c)), inflight = fs\<rparr>)
      | ClickStartOver \<Rightarrow>
          if resetButtonEnabled (sess c)
          then Some (c\<lparr>sess := fst (resetState (sess c))\<rparr>)
          else None)"

fun run :: "action list \<Rightarrow> session \<Rightarrow> session option" where
  "run [] c = Some c"
| "run (a # as) c = (case step a c of None \<Rightarrow> None | Some c' \<Rightarrow> run as c')"

text \<open>The shapes a session takes when driven from the initial one.\<close>

definition ui_inv :: "session \<Rightarrow> bool" where
  "ui_inv c =
     (case originalImage (sess c) of
        None \<Rightarrow>
          originalImageUrl (sess c) = None \<and> restoredImageUrl (sess c) = None
          \<and> \<not> isLoading (sess c) \<and> inflight c = []
          \<and> (error (sess c) = None \<or> error (sess c) = Some upload_error_message)
      | Some f \<Rightarrow>
          truthy (originalImageUrl (sess c))
          \<and> (if isLoading (sess c)
             then inflight c = [f] \<and> restoredImageUrl (sess c) = None \<and> error (sess c) = None
             else inflight c = []
                  \<and> (if truthy (restoredImageUrl (sess c)) then error (sess c) = None
                     else restoredImageUrl (sess c) = None
                          \<and> (error (sess c) = None
                              \<or> error (sess c) = Some restore_failed_message))))"

subsection \<open>The default file name as the specification words it\<close>

text \<open>
  Stated from the specification's words, for comparison with \<open>downloadLink\<close> (the source
  computes no extension): \<^verbatim>\<open>restored-photo.<original-extension-or-png>\<close>, the extension
  being what follows the last dot of the original file's name.
\<close>

definition spec_extension :: "string \<Rightarrow> string" where
  "spec_extension name =
     (if CHR ''.'' \<in> set name
      then rev (takeWhile (\<lambda>c. c \<noteq> CHR ''.'') (rev name))
      else [])"

definition spec_default_filename :: "File \<Rightarrow> string" where
  "spec_default_filename f =
     ''restored-photo.'' @
     (if spec_extension (fname f) = [] then ''png'' else spec_extension (fname f))"

subsection \<open>Example data\<close>

definition photo_jpg :: File where
  "photo_jpg = \<lparr>fname = ''photo.jpg'', ftype = ''image/jpeg'', fbytes = [255, 216, 255]\<rparr>"

definition scan_png :: File where
  "scan_png = \<lparr>fname = ''scan.png'', ftype = ''image/png'', fbytes = [137, 80, 78, 71]\<rparr>"

definition notes_txt :: File where
  "notes_txt = \<lparr>fname = ''notes.txt'', ftype = ''text/plain'', fbytes = [104, 105]\<rparr>"

definition ready_jpg_state :: app_state where
  "ready_jpg_state =
     \<lparr>originalImage = Some photo_jpg, originalImageUrl = Some ''blob:photo'',
      restoredImageUrl = None, isLoading = False, error = None\<rparr>"

definition restored_jpg_state :: app_state where
  "restored_jpg_state =
     \<lparr>originalImage = Some photo_jpg, originalImageUrl = Some ''blob:photo'',
      restoredImageUrl = Some ''data:image/jpeg;base64,Zm9vYmFy'', isLoading = False,
      error = None\<rparr>"

definition restored_png_state :: app_state where
  "restored_png_state =
     \<lparr>originalImage = Some scan_png, originalImageUrl = Some ''blob:scan'',
      restoredImageUrl = Some ''data:image/png;base64,Zm9vYmFy'', isLoading = False,
      error = None\<rparr>"

definition rejected_state :: app_state where
  "rejected_state =
     \<lparr>originalImage = None, originalImageUrl = None, restoredImageUrl = None,
      isLoading = False, error = Some upload_error_message\<rparr>"

section \<open>What the page lets the user do\<close>

text \<open>The two messages the banner can carry are different strings.\<close>

lemma msgs_differ: "upload_error_message \<noteq> restore_failed_message"
  by (simp add: upload_error_message_def restore_failed_message_def)

text \<open>
  Every session the user can drive the page into has one of the shapes of \<open>ui_inv\<close>.
\<close>

lemma initial_ui_inv: "ui_inv initial_session"
  by (simp add: ui_inv_def initial_session_def initial_state_def)

lemma step_ui_inv:
  assumes "ui_inv c" and "step a c = Some c'"
  shows "ui_inv c'"
proof (cases a)
  case (ChooseFile fo u)
  with assms show ?thesis
    by (cases fo; cases "originalImage (sess c)")
       (auto simp add: step_def ui_inv_def fileInputMounted_def handleFileChange_def
          resetState_def initial_state_def split: if_splits)
next
  case ClickRestore
  with assms show ?thesis
    by (cases "originalImage (sess c)")
       (auto simp add: step_def ui_inv_def restoreButtonEnabled_def handleRestore_begin_def
          split: if_splits)
next
  case (Settle oc)
  with assms show ?thesis
    by (cases oc; cases "originalImage (sess c)"; cases "inflight c")
       (auto simp add: step_def ui_inv_def handleRestore_settle_def dataUrl_def
          split: if_splits)
next
  case ClickStartOver
  with assms show ?thesis
    by (cases "originalImage (sess c)")
       (auto simp add: step_def ui_inv_def resetButtonEnabled_def resetState_def
          initial_state_def split: if_splits)
qed

lemma run_ui_inv:
  assumes "ui_inv c" and "run acts c = Some c'"
  shows "ui_inv c'"
  using assms
  by (induction acts arbitrary: c) (auto split: option.splits dest: step_ui_inv)

text \<open>
  The file input is there only in an idle session: once a file is chosen the first frame
  shows its preview instead, until "Start Over".
\<close>

lemma file_input_only_when_idle:
  assumes "run acts initial_session = Some c" and "fileInputMounted (sess c)"
  shows "status_of (sess c) = Idle"
proof -
  have "ui_inv c" using run_ui_inv [OF initial_ui_inv assms(1)] .
  with assms(2) show ?thesis
    by (cases "originalImage (sess c)")
       (auto simp add: ui_inv_def fileInputMounted_def status_of_def)
qed

section \<open>The registry of object URLs along a run\<close>

lemma live_history_nonempty: "live_history L es \<noteq> []"
  by (cases es) auto

lemma live_history_append:
  "live_history L (es @ fs) =
     butlast (live_history L es) @ live_history (last (live_history L es)) fs"
  by (induction es arbitrary: L) (auto simp add: live_history_nonempty)

text \<open>
  When the session owns the registry, choosing an image keeps at most one URL alive after
  every effect of the run, and the session owns the registry afterwards.
\<close>

lemma handleFileChange_owned:
  assumes "isImageType f" and "u \<noteq> []" and "preview_owned s L"
  shows "list_all (\<lambda>K. length K \<le> 1) (live_history L (snd (handleFileChange (Some f) u s)))
       \<and> last (live_history L (snd (handleFileChange (Some f) u s))) = [u]
       \<and> preview_owned (fst (handleFileChange (Some f) u s)) [u]"
  using assms
  by (auto simp add: preview_owned_def handleFileChange_def resetState_def initial_state_def
      split: option.splits)

section \<open>Choosing a file\<close>

text \<open>
  Claim C3. For every candidate file whose MIME type does not start with \<^verbatim>\<open>image/\<close>, in
  every state: \<^verbatim>\<open>handleFileChange\<close> produces the validation error, by putting its message
  in \<^verbatim>\<open>error\<close>; every other state variable stays as it was; nothing is called, so no
  preview URL is created. The component has no status variable, and the status read off
  its state stays as it was: in every state but a failed one, where the validation
  message would replace the failure message, which is all that tells a failed session
  from a ready one; hence in every session in which the page can deliver the event at
  all, since the file input is there only in an idle session.
\<close>

theorem selectFile_rejects_non_image:
  assumes "\<not> isImageType f"
  shows "handleFileChange (Some f) u s = (s\<lparr>error := Some upload_error_message\<rparr>, [])
       \<and> (status_of s \<noteq> Failed \<longrightarrow>
            status_of (fst (handleFileChange (Some f) u s)) = status_of s)
       \<and> (run acts initial_session = Some c \<and> step (ChooseFile (Some f) u) c = Some c' \<longrightarrow>
            sess c' = (sess c)\<lparr>error := Some upload_error_message\<rparr>
            \<and> status_of (sess c') = status_of (sess c))"
proof -
  have a: "handleFileChange (Some f) u s = (s\<lparr>error := Some upload_error_message\<rparr>, [])" for s
    using assms by (simp add: handleFileChange_def)
  have b: "status_of (s\<lparr>error := Some upload_error_message\<rparr>) = status_of s"
    if "status_of s \<noteq> Failed" for s
    using that msgs_differ by (simp add: status_of_def split: if_splits)
  have c: "sess c' = (sess c)\<lparr>error := Some upload_error_message\<rparr>
           \<and> status_of (sess c') = status_of (sess c)"
    if r: "run acts initial_session = Some c" and s: "step (ChooseFile (Some f) u) c = Some c'"
  proof -
    from s have m: "fileInputMounted (sess c)"
      and e: "sess c' = (sess c)\<lparr>error := Some upload_error_message\<rparr>"
      by (auto simp add: step_def a split: if_splits)
    from file_input_only_when_idle [OF r m] have "status_of (sess c) \<noteq> Failed" by simp
    with b e show ?thesis by simp
  qed
  have p2: "status_of s \<noteq> Failed \<longrightarrow>
      status_of (fst (handleFileChange (Some f) u s)) = status_of s"
    using b by (simp add: a)
  have p3: "run acts initial_session = Some c \<and> step (ChooseFile (Some f) u) c = Some c' \<longrightarrow>
      sess c' = (sess c)\<lparr>error := Some upload_error_message\<rparr>
      \<and> status_of (sess c') = status_of (sess c)"
    using c by blast
  show ?thesis by (intro conjI) (rule a p2 p3)+
qed

theorem selectFile_rejects_non_image_witness:
  "\<not> isImageType notes_txt
   \<and> run [] initial_session = Some initial_session
   \<and> step (ChooseFile (Some notes_txt) ''blob:notes'') initial_session =
       Some \<lparr>sess = rejected_state, inflight = []\<rparr>
   \<and> handleFileChange (Some notes_txt) ''blob:notes'' initial_state = (rejected_state, [])
   \<and> status_of initial_state = Idle
   \<and> status_of rejected_state = Idle"
proof -
  have h: "\<not> isImageType notes_txt" by (simp add: isImageType_def notes_txt_def)
  have i: "status_of initial_state = Idle" by (simp add: status_of_def initial_state_def)
  have j: "status_of rejected_state = Idle" by (simp add: status_of_def rejected_state_def)
  have r: "initial_state\<lparr>error := Some upload_error_message\<rparr> = rejected_state"
    by (simp add: initial_state_def rejected_state_def)
  have k: "run [] initial_session = Some initial_session" by simp
  have l: "step (ChooseFile (Some notes_txt) ''blob:notes'') initial_session =
       Some \<lparr>sess = rejected_state, inflight = []\<rparr>"
    using h r
    by (simp add: step_def initial_session_def fileInputMounted_def handleFileChange_def
        initial_state_def)
  from selectFile_rejects_non_image
         [OF h, of "''blob:notes''" initial_state "[]" initial_session
            "\<lparr>sess = rejected_state, inflight = []\<rparr>"] h i j r k l
  show ?thesis by simp
qed

text \<open>
  Claim C4. For every candidate file whose MIME type starts with \<^verbatim>\<open>image/\<close>, in every
  state: after \<^verbatim>\<open>handleFileChange\<close> the original file is the candidate, the preview URL is
  the one just created from it (the last effect of the run, after those of
  \<^verbatim>\<open>resetState\<close>), the restored image and the error are cleared, and the status is
  \<open>Ready\<close>.
\<close>

theorem selectFile_accepts_image:
  assumes "isImageType f"
  shows "fst (handleFileChange (Some f) u s) =
           \<lparr>originalImage = Some f, originalImageUrl = Some u, restoredImageUrl = None,
            isLoading = False, error = None\<rparr>
       \<and> status_of (fst (handleFileChange (Some f) u s)) = Ready
       \<and> snd (handleFileChange (Some f) u s) = snd (resetState s) @ [CreateObjectURL f u]"
  using assms
  by (simp add: handleFileChange_def resetState_def initial_state_def status_of_def)

theorem selectFile_accepts_image_witness:
  "isImageType photo_jpg
   \<and> handleFileChange (Some photo_jpg) ''blob:photo'' rejected_state =
       (ready_jpg_state, [ClearFileInput, CreateObjectURL photo_jpg ''blob:photo''])
   \<and> status_of ready_jpg_state = Ready"
proof -
  have h: "isImageType photo_jpg" by (simp add: isImageType_def photo_jpg_def)
  have e: "snd (resetState rejected_state) = [ClearFileInput]"
    by (simp add: resetState_def rejected_state_def fileInputMounted_def)
  from selectFile_accepts_image [OF h, of "''blob:photo''" rejected_state] h e
  show ?thesis by (simp add: ready_jpg_state_def prod_eq_iff status_of_def)
qed

text \<open>
  Claim C5. For every two calls of \<^verbatim>\<open>handleFileChange\<close> in a row with image files, from a
  state whose preview URL, if any, is the only object URL alive, the browser handing out
  non-empty URLs: the second call revokes the URL the first call created and only then
  creates its own; after every single effect of the two runs at most one object URL is
  alive, and at the end it is the second one.
\<close>

theorem second_selectFile_releases_first:
  assumes "isImageType f1" and "isImageType f2" and "u1 \<noteq> []" and "u2 \<noteq> []"
    and "preview_owned s0 L0"
  shows "snd (handleFileChange (Some f2) u2 (fst (handleFileChange (Some f1) u1 s0))) =
           [RevokeObjectURL u1, CreateObjectURL f2 u2]
       \<and> list_all (\<lambda>K. length K \<le> 1)
           (live_history L0
              (snd (handleFileChange (Some f1) u1 s0) @
               snd (handleFileChange (Some f2) u2 (fst (handleFileChange (Some f1) u1 s0)))))
       \<and> last (live_history L0
              (snd (handleFileChange (Some f1) u1 s0) @
               snd (handleFileChange (Some f2) u2 (fst (handleFileChange (Some f1) u1 s0))))) = [u2]"
proof -
  let ?r1 = "handleFileChange (Some f1) u1 s0"
  let ?r2 = "handleFileChange (Some f2) u2 (fst ?r1)"
  have a: "list_all (\<lambda>K. length K \<le> 1) (live_history L0 (snd ?r1))"
    and b: "last (live_history L0 (snd ?r1)) = [u1]"
    and c: "preview_owned (fst ?r1) [u1]"
    using handleFileChange_owned [OF assms(1) assms(3) assms(5)] by simp_all
  have d: "list_all (\<lambda>K. length K \<le> 1) (live_history [u1] (snd ?r2))"
    and e: "last (live_history [u1] (snd ?r2)) = [u2]"
    using handleFileChange_owned [OF assms(2) assms(4) c] by simp_all
  have f: "snd ?r2 = [RevokeObjectURL u1, CreateObjectURL f2 u2]"
    using assms(1,2,3)
    by (simp add: handleFileChange_def resetState_def initial_state_def fileInputMounted_def)
  have g: "list_all (\<lambda>K. length K \<le> 1) (butlast (live_history L0 (snd ?r1)))"
    using a by (auto simp add: list_all_iff dest: in_set_butlastD)
  show ?thesis
    using f g d e b live_history_nonempty [of "[u1]" "snd ?r2"]
    by (simp add: live_history_append)
qed

theorem second_selectFile_releases_first_witness:
  "isImageType photo_jpg \<and> isImageType scan_png \<and> preview_owned initial_state []
   \<and> snd (handleFileChange (Some scan_png) ''blob:scan''
           (fst (handleFileChange (Some photo_jpg) ''blob:photo'' initial_state))) =
       [RevokeObjectURL ''blob:photo'', CreateObjectURL scan_png ''blob:scan'']
   \<and> live_history []
        (snd (handleFileChange (Some photo_jpg) ''blob:photo'' initial_state) @
         snd (handleFileChange (Some scan_png) ''blob:scan''
                (fst (handleFileChange (Some photo_jpg) ''blob:photo'' initial_state)))) =
       [[], [], [''blob:photo''], [], [''blob:scan'']]"
proof -
  have h1: "isImageType photo_jpg" by (simp add: isImageType_def photo_jpg_def)
  have h2: "isImageType scan_png" by (simp add: isImageType_def scan_png_def)
  have h3: "''blob:photo'' \<noteq> []" and h4: "''blob:scan'' \<noteq> []" by simp_all
  have h5: "preview_owned initial_state []" by (simp add: preview_owned_def initial_state_def)
  have e1: "snd (handleFileChange (Some photo_jpg) ''blob:photo'' initial_state) =
      [ClearFileInput, CreateObjectURL photo_jpg ''blob:photo'']"
    using h1 by (simp add: handleFileChange_def resetState_def initial_state_def fileInputMounted_def)
  from second_selectFile_releases_first [OF h1 h2 h3 h4 h5] h1 h2 h5 e1
  show ?thesis by simp
qed

section \<open>Restoring\<close>

text \<open>
  Claim C6. In every state without an original file, \<^verbatim>\<open>handleRestore\<close> returns at once:
  it puts no request in flight, calls nothing (in particular not the restoration service)
  and leaves the whole state, hence the status, as it was.
\<close>

theorem restore_without_file_is_noop:
  assumes "originalImage s = None"
  shows "handleRestore_begin s = (s, [], None)
       \<and> serviceCalls (fst (snd (handleRestore_begin s))) = []
       \<and> status_of (fst (handleRestore_begin s)) = status_of s"
  using assms by (simp add: handleRestore_begin_def)

theorem restore_without_file_is_noop_witness:
  "originalImage initial_state = None
   \<and> handleRestore_begin initial_state = (initial_state, [], None)
   \<and> status_of (fst (handleRestore_begin initial_state)) = Idle"
proof -
  have h: "originalImage initial_state = None" by (simp add: initial_state_def)
  have "status_of initial_state = Idle" by (simp add: status_of_def initial_state_def)
  with h restore_without_file_is_noop [OF h] show ?thesis by simp
qed

text \<open>
  Claim C7. For every state with an original file, when the service call resolves with a
  base64 payload the status goes from the one before the call to \<open>Restoring\<close> and then
  to \<open>Succeeded\<close> (so \<open>Ready\<close>, \<open>Restoring\<close>, \<open>Succeeded\<close> from a ready session), the
  service is called once, with the original file, and the restored image is the data URL
  made of the original file's MIME type and the payload.
\<close>

theorem restore_success:
  assumes "originalImage s = Some f"
  shows "map status_of (fst (handleRestore (Resolved b64) s)) = [status_of s, Restoring, Succeeded]
       \<and> restoredImageUrl (last (fst (handleRestore (Resolved b64) s))) =
           Some (''data:'' @ ftype f @ '';base64,'' @ b64)
       \<and> serviceCalls (snd (handleRestore (Resolved b64) s)) = [f]"
  using assms
  by (simp add: handleRestore_def handleRestore_begin_def handleRestore_settle_def
      status_of_def dataUrl_def)

theorem restore_success_witness:
  "originalImage ready_jpg_state = Some photo_jpg
   \<and> map status_of (fst (handleRestore (Resolved ''Zm9vYmFy'') ready_jpg_state)) =
       [Ready, Restoring, Succeeded]
   \<and> last (fst (handleRestore (Resolved ''Zm9vYmFy'') ready_jpg_state)) = restored_jpg_state"
proof -
  have h: "originalImage ready_jpg_state = Some photo_jpg" by (simp add: ready_jpg_state_def)
  have r: "status_of ready_jpg_state = Ready" by (simp add: status_of_def ready_jpg_state_def)
  have l: "last (fst (handleRestore (Resolved ''Zm9vYmFy'') ready_jpg_state)) = restored_jpg_state"
    by (simp add: handleRestore_def handleRestore_begin_def handleRestore_settle_def
        dataUrl_def ready_jpg_state_def restored_jpg_state_def photo_jpg_def)
  from restore_success [OF h, of "''Zm9vYmFy''"] h r l show ?thesis by simp
qed

text \<open>
  Claim C8. For every state with an original file, when the service call is rejected,
  with whatever error, the status goes from the one before the call to \<open>Restoring\<close> and
  then to \<open>Failed\<close> (so \<open>Ready\<close>, \<open>Restoring\<close>, \<open>Failed\<close> from a ready session), the
  error is exactly the fixed message, the restored image stays unset, and the underlying
  error only goes to the console.
\<close>

theorem restore_rejected_sets_failed:
  assumes "originalImage s = Some f"
  shows "map status_of (fst (handleRestore (Rejected err) s)) = [status_of s, Restoring, Failed]
       \<and> error (last (fst (handleRestore (Rejected err) s))) =
           Some ''Failed to restore photo. Please try again later.''
       \<and> restoredImageUrl (last (fst (handleRestore (Rejected err) s))) = None
       \<and> snd (handleRestore (Rejected err) s) = [RestorePhotoCall f, ConsoleError err]"
  using assms
  by (simp add: handleRestore_def handleRestore_begin_def handleRestore_settle_def
      status_of_def restore_failed_message_def)

theorem restore_rejected_sets_failed_witness:
  "originalImage ready_jpg_state = Some photo_jpg
   \<and> map status_of (fst (handleRestore (Rejected ''offline'') ready_jpg_state)) =
       [Ready, Restoring, Failed]
   \<and> last (fst (handleRestore (Rejected ''offline'') ready_jpg_state)) =
       ready_jpg_state\<lparr>error := Some ''Failed to restore photo. Please try again later.''\<rparr>"
proof -
  have h: "originalImage ready_jpg_state = Some photo_jpg" by (simp add: ready_jpg_state_def)
  have r: "status_of ready_jpg_state = Ready" by (simp add: status_of_def ready_jpg_state_def)
  have l: "last (fst (handleRestore (Rejected ''offline'') ready_jpg_state)) =
      ready_jpg_state\<lparr>error := Some ''Failed to restore photo. Please try again later.''\<rparr>"
    by (simp add: handleRestore_def handleRestore_begin_def handleRestore_settle_def
        ready_jpg_state_def restore_failed_message_def)
  from restore_rejected_sets_failed [OF h, of "''offline''"] h r l show ?thesis by simp
qed

text \<open>
  Claim C10. For every state with an original file, when the service call is rejected the
  original file and its preview URL are the same in every state of the run, no URL is
  revoked, and the restore button is enabled again at the end: the user can retry with
  the same selection.
\<close>

theorem failed_restore_keeps_selection:
  assumes "originalImage s = Some f"
  shows "map originalImage (fst (handleRestore (Rejected err) s)) = [Some f, Some f, Some f]
       \<and> map originalImageUrl (fst (handleRestore (Rejected err) s)) =
           [originalImageUrl s, originalImageUrl s, originalImageUrl s]
       \<and> revoked (snd (handleRestore (Rejected err) s)) = []
       \<and> restoreButtonEnabled (last (fst (handleRestore (Rejected err) s)))"
  using assms
  by (simp add: handleRestore_def handleRestore_begin_def handleRestore_settle_def
      restoreButtonEnabled_def)

theorem failed_restore_keeps_selection_witness:
  "originalImage ready_jpg_state = Some photo_jpg
   \<and> originalImageUrl (last (fst (handleRestore (Rejected ''offline'') ready_jpg_state))) =
       Some ''blob:photo''
   \<and> originalImage (last (fst (handleRestore (Rejected ''offline'') ready_jpg_state))) =
       Some photo_jpg
   \<and> restoreButtonEnabled (last (fst (handleRestore (Rejected ''offline'') ready_jpg_state)))"
proof -
  have h: "originalImage ready_jpg_state = Some photo_jpg" by (simp add: ready_jpg_state_def)
  have l: "last (fst (handleRestore (Rejected ''offline'') ready_jpg_state)) =
      ready_jpg_state\<lparr>error := Some restore_failed_message\<rparr>"
    by (simp add: handleRestore_def handleRestore_begin_def handleRestore_settle_def
        ready_jpg_state_def)
  from failed_restore_keeps_selection [OF h, of "''offline''"] h l
  show ?thesis by (simp add: ready_jpg_state_def)
qed

section \<open>Starting over\<close>

text \<open>
  Claim C9. From every state \<^verbatim>\<open>resetState\<close> leads to the initial state, whose status is
  \<open>Idle\<close>, with the original file, both URLs and the error cleared; it revokes the
  preview URL held, once, and nothing when none is held. It is idempotent: applied again
  to the state it has produced, it leaves that state as it is and revokes nothing (it
  empties the file input, which is empty already).
\<close>

theorem reset_clears_and_is_idempotent:
  "fst (resetState s) =
     \<lparr>originalImage = None, originalImageUrl = None, restoredImageUrl = None,
      isLoading = False, error = None\<rparr>
   \<and> status_of (fst (resetState s)) = Idle
   \<and> revoked (snd (resetState s)) =
       (case originalImageUrl s of None \<Rightarrow> [] | Some u \<Rightarrow> if u = [] then [] else [u])
   \<and> resetState (fst (resetState s)) = (fst (resetState s), [ClearFileInput])
   \<and> revoked (snd (resetState (fst (resetState s)))) = []"
  by (simp add: resetState_def initial_state_def status_of_def fileInputMounted_def
      split: option.splits)

theorem reset_clears_and_is_idempotent_witness:
  "resetState restored_jpg_state = (initial_state, [RevokeObjectURL ''blob:photo''])
   \<and> resetState initial_state = (initial_state, [ClearFileInput])"
  using reset_clears_and_is_idempotent [of restored_jpg_state]
  by (simp add: resetState_def initial_state_def restored_jpg_state_def fileInputMounted_def)

section \<open>The error banner and the status\<close>

text \<open>
  Claim C1, as stated, in the session reached from the initial one by choosing the file
  \<^verbatim>\<open>notes.txt\<close>: the error is set, to the validation message, and the status is
  \<open>Idle\<close>, not \<open>Failed\<close>.
\<close>

theorem error_iff_failed_counterexample:
  "run [ChooseFile (Some notes_txt) ''blob:notes''] initial_session =
     Some \<lparr>sess = rejected_state, inflight = []\<rparr>
   \<and> error rejected_state = Some ''Please upload a valid image file (PNG, JPG, etc.).''
   \<and> status_of rejected_state = Idle
   \<and> \<not> (error rejected_state \<noteq> None \<longleftrightarrow> status_of rejected_state = Failed)"
  by (simp add: step_def initial_session_def initial_state_def fileInputMounted_def
      handleFileChange_def isImageType_def notes_txt_def rejected_state_def
      upload_error_message_def status_of_def)

text \<open>
  Claim C1, amended. In every session the user can drive the page into, the error is set
  if and only if the status is \<open>Failed\<close>, or the status is \<open>Idle\<close> and the error is the
  validation message of a rejected choice; and the status is \<open>Failed\<close> if and only if the
  error is the message of a failed restoration. Choosing a file, restoring (its start
  and its settling) and starting over all keep this, being the steps of \<open>run\<close>.
\<close>

theorem error_banner_invariant:
  assumes "run acts initial_session = Some c"
  shows "(error (sess c) \<noteq> None) =
           (status_of (sess c) = Failed
            \<or> status_of (sess c) = Idle \<and> error (sess c) = Some upload_error_message)
       \<and> (status_of (sess c) = Failed) = (error (sess c) = Some restore_failed_message)"
proof -
  have "ui_inv c" using run_ui_inv [OF initial_ui_inv assms] .
  then show ?thesis
    using msgs_differ
    by (cases "originalImage (sess c)")
       (auto simp add: ui_inv_def status_of_def split: if_splits)
qed

theorem error_banner_invariant_witness:
  "run [ChooseFile (Some photo_jpg) ''blob:photo'', ClickRestore, Settle (Rejected ''offline'')]
     initial_session =
     Some \<lparr>sess = ready_jpg_state\<lparr>error := Some restore_failed_message\<rparr>, inflight = []\<rparr>
   \<and> status_of (ready_jpg_state\<lparr>error := Some restore_failed_message\<rparr>) = Failed"
proof -
  have r: "run [ChooseFile (Some photo_jpg) ''blob:photo'', ClickRestore,
                Settle (Rejected ''offline'')] initial_session =
     Some \<lparr>sess = ready_jpg_state\<lparr>error := Some restore_failed_message\<rparr>, inflight = []\<rparr>"
    by (simp add: step_def initial_session_def initial_state_def fileInputMounted_def
        handleFileChange_def isImageType_def photo_jpg_def resetState_def
        restoreButtonEnabled_def handleRestore_begin_def handleRestore_settle_def
        ready_jpg_state_def)
  from error_banner_invariant [OF r] r show ?thesis by simp
qed

section \<open>Saving the restored image\<close>

text \<open>
  Claim C2, as stated, at the file \<^verbatim>\<open>photo.jpg\<close> once restored: the download link
  proposes \<^verbatim>\<open>restored-photo.png\<close>, not \<^verbatim>\<open>restored-photo.jpg\<close>.
\<close>

theorem save_name_counterexample:
  "originalImage restored_jpg_state = Some photo_jpg
   \<and> downloadLink restored_jpg_state =
       Some (''data:image/jpeg;base64,Zm9vYmFy'', ''restored-photo.png'')
   \<and> spec_default_filename photo_jpg = ''restored-photo.jpg''
   \<and> map_option snd (downloadLink restored_jpg_state) \<noteq> Some (spec_default_filename photo_jpg)"
  by (simp add: restored_jpg_state_def downloadLink_def download_name_def
      spec_default_filename_def spec_extension_def photo_jpg_def)

text \<open>
  Claim C2, amended. For every state in which a restored image exists, the download link
  points to it and its default file name is \<^verbatim>\<open>restored-photo.png\<close>, whatever the original
  file; this is the name the specification words when the name of the original file has
  no extension or the extension \<^verbatim>\<open>png\<close>.
\<close>

theorem save_name_is_fixed:
  assumes "truthy (restoredImageUrl s)"
  shows "map_option fst (downloadLink s) = restoredImageUrl s
       \<and> map_option snd (downloadLink s) = Some ''restored-photo.png''
       \<and> (originalImage s = Some f
           \<and> (spec_extension (fname f) = [] \<or> spec_extension (fname f) = ''png'') \<longrightarrow>
            map_option snd (downloadLink s) = Some (spec_default_filename f))"
  using assms
  by (cases "restoredImageUrl s")
     (auto simp add: downloadLink_def download_name_def spec_default_filename_def)

theorem save_name_is_fixed_witness:
  "truthy (restoredImageUrl restored_png_state)
   \<and> originalImage restored_png_state = Some scan_png
   \<and> spec_extension (fname scan_png) = ''png''
   \<and> downloadLink restored_png_state =
       Some (''data:image/png;base64,Zm9vYmFy'', ''restored-photo.png'')
   \<and> map_option snd (downloadLink restored_png_state) = Some (spec_default_filename scan_png)"
proof -
  have h: "truthy (restoredImageUrl restored_png_state)" by (simp add: restored_png_state_def)
  have o: "originalImage restored_png_state = Some scan_png" by (simp add: restored_png_state_def)
  have e: "spec_extension (fname scan_png) = ''png''"
    by (simp add: spec_extension_def scan_png_def)
  have d: "downloadLink restored_png_state =
       Some (''data:image/png;base64,Zm9vYmFy'', ''restored-photo.png'')"
    by (simp add: downloadLink_def download_name_def restored_png_state_def)
  from save_name_is_fixed [OF h, of scan_png] h o e d show ?thesis by simp
qed

end
